theory Spec2Isabelle
  imports Complex_Main "HOL-Library.Multiset"
begin

section \<open>py12306/helpers/cdn.py: endpoint scores and the ranked CDN registry\<close>

text \<open>
  The module keeps one \<open>CdnItem\<close> object per CDN host and a registry \<open>Cdn\<close> that holds
  the objects in a list ordered by weight (\<open>cdn_list\<close>) and in a dictionary keyed by host
  (\<open>cdn_map\<close>). Both containers hold references to the same objects, so the registry is
  modelled with an explicit store of objects.

  Numbers: \<open>request_count\<close> and \<open>success_count\<close> are Python integers (\<open>int\<close>). Delays,
  scores and weights are Python numbers combined with true division; they are modelled
  as exact rationals (\<open>rat\<close>), so the rounding of binary floating point is not part of
  the model.

  A Python method mutates its object in place and may raise after some of the
  assignments have been made. Every operation therefore returns a pair: the result
  (\<open>Inl e\<close> for a raised exception, \<open>Inr v\<close> for a normal return) and the state as the
  call leaves it.
\<close>

subsection \<open>Exceptions\<close>

datatype error = KeyError | IndexError | ZeroDivisionError | TypeError | ValueError

subsection \<open>CdnItem\<close>

record CdnItem =
  host :: string
  list_index :: "nat option"
  request_count :: int
  success_count :: int
  delay_data :: "rat list"
  delay_count :: rat
  delay_rate_score :: rat
  weight :: rat

definition SUCCESS_RATE_WEIGHT :: rat where
  "SUCCESS_RATE_WEIGHT = 10000"

definition BASE_DELAY_MS :: rat where
  "BASE_DELAY_MS = 1000"

definition AVG_DELAY_WEIGHT :: rat where
  "AVG_DELAY_WEIGHT = 1000"

definition MAX_DELAY_DATA :: nat where
  "MAX_DELAY_DATA = 10"

text \<open>\<open>CdnItem.__init__\<close>: \<open>list_index\<close> starts as \<open>None\<close>.\<close>

definition CdnItem_init :: "string \<Rightarrow> CdnItem" where
  "CdnItem_init h =
     \<lparr>host = h, list_index = None, request_count = 0, success_count = 0,
      delay_data = [], delay_count = 0, delay_rate_score = 0, weight = 0\<rparr>"

text \<open>
  The success branch of \<open>add_request_result\<close> (lines 41 to 53). \<open>pop(0)\<close> runs only on a
  list of at least \<open>MAX_DELAY_DATA\<close> elements, so \<open>hd\<close> and \<open>tl\<close> are applied to a
  non-empty list. The sample is appended before the average is taken, so
  \<open>len(self.delay_data)\<close> is at least one at the division.
\<close>

definition record_success :: "rat \<Rightarrow> CdnItem \<Rightarrow> CdnItem" where
  "record_success delay s =
     (let s1 = s\<lparr>success_count := success_count s + 1\<rparr>;
          s2 = (if length (delay_data s1) \<ge> MAX_DELAY_DATA
                then (let x = hd (delay_data s1)
                      in s1\<lparr>delay_data := tl (delay_data s1),
                            delay_count := delay_count s1 - x\<rparr>)
                else s1);
          s3 = s2\<lparr>delay_count := delay_count s2 + delay\<rparr>;
          s4 = s3\<lparr>delay_data := delay_data s3 @ [delay]\<rparr>;
          avg_delay = delay_count s4 / of_nat (length (delay_data s4));
          score = (BASE_DELAY_MS - avg_delay) / BASE_DELAY_MS
      in s4\<lparr>delay_rate_score := (if score > 0 then score else 0)\<rparr>)"

text \<open>
  \<open>add_request_result\<close>: the counter is incremented first; the division by
  \<open>request_count\<close> raises \<open>ZeroDivisionError\<close> when the counter is zero at that point,
  and then the assignments made so far stay in the object.
\<close>

definition add_request_result :: "rat \<Rightarrow> bool \<Rightarrow> CdnItem \<Rightarrow> (error + unit) \<times> CdnItem" where
  "add_request_result delay success s =
     (let s1 = s\<lparr>request_count := request_count s + 1\<rparr>;
          s2 = (if success then record_success delay s1 else s1)
      in if request_count s2 = 0 then (Inl ZeroDivisionError, s2)
         else (let success_rate = of_int (success_count s2) / of_int (request_count s2)
               in (Inr (),
                   s2\<lparr>weight := success_rate * SUCCESS_RATE_WEIGHT
                                 + delay_rate_score s2 * AVG_DELAY_WEIGHT\<rparr>)))"


subsection \<open>The registry\<close>

text \<open>
  \<open>cdn_list\<close> and \<open>cdn_map\<close> hold references to \<open>CdnItem\<close> objects. The store \<open>objs\<close>
  maps an address to the object that lives there; \<open>next_addr\<close> is the address the next
  constructed object receives. \<open>last_check_at\<close> is set by saving and restoring only: it
  holds a time value after \<open>save_available_items\<close>, and the text read from the snapshot
  or the time parsed from it after \<open>restore_items\<close>. Time values come from
  \<open>py12306.helpers.func\<close>, which is not part of the sources at hand; their type is the
  parameter \<open>'t\<close>.
\<close>

datatype 't stamp = Text string | Time 't

record 't Cdn =
  objs :: "nat \<Rightarrow> CdnItem"
  next_addr :: nat
  items :: "string list"
  cdn_list :: "nat list"
  cdn_map :: "string \<rightharpoonup> nat"
  last_check_at :: "'t stamp option"

text \<open>The class attributes: no object, empty containers.\<close>

definition Cdn_init :: "'t Cdn" where
  "Cdn_init =
     \<lparr>objs = (\<lambda>_. CdnItem_init []), next_addr = 0, items = [], cdn_list = [],
      cdn_map = Map.empty, last_check_at = None\<rparr>"

text \<open>\<open>val.rstrip('\n')\<close>: every trailing line feed is removed.\<close>

definition rstrip_newline :: "string \<Rightarrow> string" where
  "rstrip_newline val = rev (dropWhile (\<lambda>ch. ch = CHR 0x0A) (rev val))"

text \<open>The body of the loop of \<open>load_items\<close>, for one line of the host file.\<close>

definition load_line :: "string \<Rightarrow> 't Cdn \<Rightarrow> 't Cdn" where
  "load_line val c =
     (let h = rstrip_newline val;
          a = next_addr c;
          cdn_item = (CdnItem_init h)\<lparr>list_index := Some (length (cdn_list c))\<rparr>
      in c\<lparr>objs := (objs c)(a := cdn_item),
            next_addr := Suc a,
            cdn_map := (cdn_map c)(h \<mapsto> a),
            cdn_list := cdn_list c @ [a],
            items := items c @ [h]\<rparr>)"

definition load_items :: "string list \<Rightarrow> 't Cdn \<Rightarrow> 't Cdn" where
  "load_items lines c = fold load_line lines c"

text \<open>\<open>self.cdn_list[i].weight\<close>, with the \<open>IndexError\<close> of an index past the end.\<close>

definition weight_at :: "'t Cdn \<Rightarrow> nat \<Rightarrow> error + rat" where
  "weight_at c i =
     (if i < length (cdn_list c) then Inr (weight (objs c (cdn_list c ! i)))
      else Inl IndexError)"

text \<open>
  The loop of lines 230 to 236, over the indices \<open>list_index - 1, ..., 0\<close>. The object
  \<open>cdn_item\<close> is the address \<open>a\<close>; \<open>new_weight\<close> was read before the loop. The loop
  writes the \<open>list_index\<close> of the element it displaces and never the one of \<open>cdn_item\<close>.
\<close>

fun bubble_up :: "nat \<Rightarrow> rat \<Rightarrow> nat list \<Rightarrow> 't Cdn \<Rightarrow> (error + unit) \<times> 't Cdn" where
  "bubble_up a new_weight [] c = (Inr (), c)"
| "bubble_up a new_weight (i # is) c =
     (case weight_at c i of
        Inl e \<Rightarrow> (Inl e, c)
      | Inr w \<Rightarrow>
          if new_weight > w then
            (let b = cdn_list c ! i;
                 c1 = c\<lparr>objs := (objs c)(b := (objs c b)\<lparr>list_index := Some (i + 1)\<rparr>)\<rparr>
             in if i + 1 < length (cdn_list c1)
                then bubble_up a new_weight is
                       (c1\<lparr>cdn_list := (cdn_list c1)[i + 1 := b, i := a]\<rparr>)
                else (Inl IndexError, c1))
          else (Inr (), c))"

text \<open>
  The loop of lines 239 to 245, over the indices \<open>list_index + 1, ..., len - 1\<close>; every
  index it sees is at least one, so \<open>i - 1\<close> is not negative.
\<close>

fun bubble_down :: "nat \<Rightarrow> rat \<Rightarrow> nat list \<Rightarrow> 't Cdn \<Rightarrow> (error + unit) \<times> 't Cdn" where
  "bubble_down a new_weight [] c = (Inr (), c)"
| "bubble_down a new_weight (i # is) c =
     (case weight_at c i of
        Inl e \<Rightarrow> (Inl e, c)
      | Inr w \<Rightarrow>
          if new_weight \<le> w then
            (let b = cdn_list c ! i;
                 c1 = c\<lparr>objs := (objs c)(b := (objs c b)\<lparr>list_index := Some (i - 1)\<rparr>)\<rparr>
             in bubble_down a new_weight is
                  (c1\<lparr>cdn_list := (cdn_list c1)[i - 1 := b, i := a]\<rparr>))
          else (Inr (), c))"

text \<open>
  The condition of line 229: \<open>list_index > 0 and new_weight > cdn_list[list_index - 1].weight\<close>.
\<close>

definition moves_up :: "'t Cdn \<Rightarrow> nat \<Rightarrow> rat \<Rightarrow> error + bool" where
  "moves_up c li new_weight =
     (if li > 0
      then (case weight_at c (li - 1) of Inl e \<Rightarrow> Inl e | Inr w \<Rightarrow> Inr (new_weight > w))
      else Inr False)"

text \<open>
  The condition of line 238; \<open>list_index + 1\<close> is within the list whenever the first
  conjunct holds.
\<close>

definition moves_down :: "'t Cdn \<Rightarrow> nat \<Rightarrow> rat \<Rightarrow> bool" where
  "moves_down c li new_weight =
     (li < length (cdn_list c) - 1 \<and> new_weight \<le> weight (objs c (cdn_list c ! (li + 1))))"

text \<open>
  Lines 229 to 245. Comparing a \<open>list_index\<close> that is still \<open>None\<close> with \<open>0\<close> raises
  \<open>TypeError\<close>.
\<close>

definition reposition :: "nat \<Rightarrow> rat \<Rightarrow> 't Cdn \<Rightarrow> (error + unit) \<times> 't Cdn" where
  "reposition a new_weight c =
     (case list_index (objs c a) of
        None \<Rightarrow> (Inl TypeError, c)
      | Some li \<Rightarrow>
          (case moves_up c li new_weight of
             Inl e \<Rightarrow> (Inl e, c)
           | Inr True \<Rightarrow> bubble_up a new_weight (rev [0..<li]) c
           | Inr False \<Rightarrow>
               if moves_down c li new_weight
               then bubble_down a new_weight [li + 1..<length (cdn_list c)] c
               else (Inr (), c)))"

text \<open>
  \<open>report_cdn_result\<close>. \<open>self.cdn_map[host]\<close> is a subscript: it raises \<open>KeyError\<close> for
  a host that is not a key. The test \<open>if not cdn_item\<close> that follows is never true,
  since a \<open>CdnItem\<close> object is truthy, so its branch does not appear. The lock is
  released on every exit and is not modelled.
\<close>

definition report_cdn_result ::
  "string \<Rightarrow> rat \<Rightarrow> bool \<Rightarrow> 't Cdn \<Rightarrow> (error + unit) \<times> 't Cdn" where
  "report_cdn_result h delay success c =
     (case cdn_map c h of
        None \<Rightarrow> (Inl KeyError, c)
      | Some a \<Rightarrow>
          (case add_request_result delay success (objs c a) of
             (Inl e, cdn_item) \<Rightarrow> (Inl e, c\<lparr>objs := (objs c)(a := cdn_item)\<rparr>)
           | (Inr _, cdn_item) \<Rightarrow>
               reposition a (weight cdn_item) (c\<lparr>objs := (objs c)(a := cdn_item)\<rparr>)))"

text \<open>A sequence of reports; it stops at the first exception, as the caller would.\<close>

fun report_cdn_results ::
  "(string \<times> rat \<times> bool) list \<Rightarrow> 't Cdn \<Rightarrow> (error + unit) \<times> 't Cdn" where
  "report_cdn_results [] c = (Inr (), c)"
| "report_cdn_results ((h, delay, success) # rs) c =
     (case report_cdn_result h delay success c of
        (Inl e, c') \<Rightarrow> (Inl e, c')
      | (Inr _, c') \<Rightarrow> report_cdn_results rs c')"



text \<open>
  \<open>resort_cdn_list\<close>. \<open>list.sort(key, reverse=True)\<close> is stable: it orders by descending
  key and keeps elements of equal key in their order. Then every position is written
  into the object at that position.
\<close>

definition sort_reverse :: "('a \<Rightarrow> rat) \<Rightarrow> 'a list \<Rightarrow> 'a list" where
  "sort_reverse key xs = rev (sort_key key (rev xs))"

definition set_list_index :: "nat \<Rightarrow> 't Cdn \<Rightarrow> 't Cdn" where
  "set_list_index i c =
     (let b = cdn_list c ! i
      in c\<lparr>objs := (objs c)(b := (objs c b)\<lparr>list_index := Some i\<rparr>)\<rparr>)"

definition resort_cdn_list :: "'t Cdn \<Rightarrow> 't Cdn" where
  "resort_cdn_list c =
     (let c1 = c\<lparr>cdn_list := sort_reverse (\<lambda>x. weight (objs c x)) (cdn_list c)\<rparr>
      in fold set_list_index [0..<length (cdn_list c1)] c1)"

subsection \<open>Snapshots\<close>

text \<open>
  The snapshot file holds a JSON object. \<open>CdnItemEncoder\<close> writes four fields of every
  object of \<open>cdn_list\<close>. The model keeps the parsed value: a record whose three keys
  may each be absent, with typed entries. The JSON text itself, and a file whose
  top-level value or entries have another shape, are outside the model.
\<close>

record snapshot_item =
  s_host :: string
  s_request_count :: int
  s_success_count :: int
  s_weight :: rat

record snapshot =
  s_version :: "int option"
  s_last_check_at :: "string option"
  s_cdn_list :: "snapshot_item list option"

text \<open>
  What \<open>restore_items\<close> finds: no file, a file that \<open>json.loads\<close> rejects, or a parsed
  object.
\<close>

datatype file_content = NoFile | Malformed | Json snapshot



text \<open>An object without keys is falsy in the test \<open>if result\<close>.\<close>

definition is_empty_object :: "snapshot \<Rightarrow> bool" where
  "is_empty_object result =
     (s_version result = None \<and> s_last_check_at result = None \<and> s_cdn_list result = None)"

text \<open>The loop of lines 171 to 175; \<open>self.cdn_map[...]\<close> raises \<open>KeyError\<close>.\<close>

fun restore_cdn_list :: "snapshot_item list \<Rightarrow> 't Cdn \<Rightarrow> (error + unit) \<times> 't Cdn" where
  "restore_cdn_list [] c = (Inr (), c)"
| "restore_cdn_list (x # xs) c =
     (case cdn_map c (s_host x) of
        None \<Rightarrow> (Inl KeyError, c)
      | Some a \<Rightarrow>
          restore_cdn_list xs
            (c\<lparr>objs := (objs c)(a := (objs c a)\<lparr>request_count := s_request_count x,
                                                success_count := s_success_count x,
                                                weight := s_weight x\<rparr>)\<rparr>))"

text \<open>Lines 166 to 168; \<open>str_to_time\<close> is the parser of \<open>py12306.helpers.func\<close>.\<close>

definition restore_last_check_at ::
  "(string \<Rightarrow> error + 't) \<Rightarrow> snapshot \<Rightarrow> 't Cdn \<Rightarrow> (error + unit) \<times> 't Cdn" where
  "restore_last_check_at str_to_time result c =
     (let t = (case s_last_check_at result of None \<Rightarrow> [] | Some t \<Rightarrow> t);
          c1 = c\<lparr>last_check_at := Some (Text t)\<rparr>
      in if t \<noteq> []
         then (case str_to_time t of
                 Inl e \<Rightarrow> (Inl e, c1)
               | Inr tm \<Rightarrow> (Inr (), c1\<lparr>last_check_at := Some (Time tm)\<rparr>))
         else (Inr (), c1))"

definition restore_items ::
  "(string \<Rightarrow> error + 't) \<Rightarrow> file_content \<Rightarrow> 't Cdn \<Rightarrow> (error + bool) \<times> 't Cdn" where
  "restore_items str_to_time f c =
     (case f of
        NoFile \<Rightarrow> (Inr False, c)
      | Malformed \<Rightarrow> (Inr False, c)
      | Json result \<Rightarrow>
          if is_empty_object result then (Inr False, c)
          else (let version = (case s_version result of None \<Rightarrow> 1 | Some v \<Rightarrow> v)
                in if version \<le> 1 then (Inr False, c)
                   else (case restore_last_check_at str_to_time result c of
                           (Inl e, c1) \<Rightarrow> (Inl e, c1)
                         | (Inr _, c1) \<Rightarrow>
                             (case restore_cdn_list
                                     (case s_cdn_list result of None \<Rightarrow> [] | Some l \<Rightarrow> l) c1 of
                                (Inl e, c2) \<Rightarrow> (Inl e, c2)
                              | (Inr _, c2) \<Rightarrow> (Inr True, resort_cdn_list c2)))))"

subsection \<open>Predicates used in the statements\<close>




text \<open>Every object of the sequence is the one that the dictionary holds for its host.\<close>

definition indexed_under_host :: "'t Cdn \<Rightarrow> bool" where
  "indexed_under_host c = (\<forall>a \<in> set (cdn_list c). cdn_map c (host (objs c a)) = Some a)"


section \<open>Properties of CdnItem\<close>

lemmas constant_defs =
  SUCCESS_RATE_WEIGHT_def BASE_DELAY_MS_def AVG_DELAY_WEIGHT_def MAX_DELAY_DATA_def














text \<open>
  C4. \<open>add_request_result\<close> with \<open>success = False\<close> adds one to \<open>request_count\<close> and
  leaves \<open>success_count\<close>, the delay window, \<open>delay_count\<close> and \<open>delay_rate_score\<close> (and
  \<open>host\<close>, \<open>list_index\<close>) as they were; unless the incremented counter is zero, the call
  returns and \<open>weight\<close> is the new success rate times 10000 plus the unchanged score
  times 1000.
\<close>

theorem C4_failure_frame:
  "(let s' = snd (add_request_result delay False s)
    in request_count s' = request_count s + 1
       \<and> success_count s' = success_count s
       \<and> delay_data s' = delay_data s
       \<and> delay_count s' = delay_count s
       \<and> delay_rate_score s' = delay_rate_score s
       \<and> host s' = host s
       \<and> list_index s' = list_index s
       \<and> (request_count s + 1 \<noteq> 0 \<longrightarrow>
            fst (add_request_result delay False s) = Inr ()
            \<and> weight s' = of_int (success_count s) / of_int (request_count s + 1) * 10000
                          + delay_rate_score s * 1000))"
  by (simp add: add_request_result_def Let_def SUCCESS_RATE_WEIGHT_def AVG_DELAY_WEIGHT_def)

theorem C4_failure_frame_witness:
  "request_count (snd (add_request_result 200 True (CdnItem_init ''H''))) + 1 \<noteq> 0
   \<and> fst (add_request_result 50 False (snd (add_request_result 200 True (CdnItem_init ''H''))))
       = Inr ()
   \<and> weight (snd (add_request_result 50 False
                     (snd (add_request_result 200 True (CdnItem_init ''H''))))) = 5800"
  using C4_failure_frame [of 50 "snd (add_request_result 200 True (CdnItem_init ''H''))"]
  by (simp add: add_request_result_def record_success_def CdnItem_init_def constant_defs Let_def)









section \<open>Properties of the registry\<close>

lemmas evaluation_defs =
  load_items_def load_line_def Cdn_init_def CdnItem_init_def rstrip_newline_def
  report_cdn_result_def add_request_result_def record_success_def reposition_def
  moves_up_def moves_down_def weight_at_def constant_defs Let_def

text \<open>
  C1. The host file has the lines \<open>A\<close> and \<open>B\<close>; one success with delay 200 is reported
  for \<open>B\<close>. The call returns, \<open>B\<close> (the object at address 1) is moved to the front of the
  sequence, and its \<open>list_index\<close> is still 1, where the sequence now holds \<open>A\<close> (the
  object at address 0).
\<close>

theorem C1_stale_position:
  "fst (report_cdn_result ''B'' 200 True (load_items [''A'', ''B''] (Cdn_init :: unit Cdn)))
     = Inr ()
   \<and> cdn_list (snd (report_cdn_result ''B'' 200 True
                      (load_items [''A'', ''B''] (Cdn_init :: unit Cdn)))) = [1, 0]
   \<and> cdn_map (snd (report_cdn_result ''B'' 200 True
                     (load_items [''A'', ''B''] (Cdn_init :: unit Cdn)))) ''B'' = Some 1
   \<and> list_index (objs (snd (report_cdn_result ''B'' 200 True
                              (load_items [''A'', ''B''] (Cdn_init :: unit Cdn)))) 1) = Some 1"
  by (simp add: evaluation_defs)

text \<open>
  The stale position then misleads later calls. With three hosts, a success for \<open>C\<close>,
  a success for \<open>A\<close> and a failure for \<open>C\<close> leave the weights of the sequence in the
  order 5800, 10100, 0; a success and a failure for \<open>C\<close> alone leave \<open>C\<close> twice in the
  sequence and \<open>B\<close> nowhere.
\<close>

lemma report_order_lost:
  "fst (report_cdn_results [(''C'', 200, True), (''A'', 900, True), (''C'', 200, False)]
          (load_items [''A'', ''B'', ''C''] (Cdn_init :: unit Cdn))) = Inr ()
   \<and> map (\<lambda>a. weight (objs (snd (report_cdn_results
                 [(''C'', 200, True), (''A'', 900, True), (''C'', 200, False)]
                 (load_items [''A'', ''B'', ''C''] (Cdn_init :: unit Cdn)))) a))
        (cdn_list (snd (report_cdn_results
                 [(''C'', 200, True), (''A'', 900, True), (''C'', 200, False)]
                 (load_items [''A'', ''B'', ''C''] (Cdn_init :: unit Cdn)))))
      = [5800, 10100, 0]"
  by (simp add: evaluation_defs)

lemma report_entry_lost:
  "cdn_list (snd (report_cdn_results [(''C'', 200, True), (''C'', 200, False)]
          (load_items [''A'', ''B'', ''C''] (Cdn_init :: unit Cdn)))) = [2, 2, 0]"
  by (simp add: evaluation_defs)

lemma report_untracked:
  "cdn_map c h = None \<Longrightarrow> report_cdn_result h delay success c = (Inl KeyError, c)"
  by (simp add: report_cdn_result_def)

text \<open>
  C2. Reporting for the host \<open>X\<close>, which is not a key of \<open>cdn_map\<close>, raises \<open>KeyError\<close>
  into the caller; the registry is left as it was.
\<close>

theorem C2_untracked_host_raises:
  "report_cdn_result ''X'' 100 True (load_items [''A'', ''B''] (Cdn_init :: unit Cdn))
     = (Inl KeyError, load_items [''A'', ''B''] Cdn_init)"
  by (rule report_untracked) (simp add: evaluation_defs)



text \<open>
  C8. A snapshot whose version is absent or at most 1 is discarded: \<open>restore_items\<close>
  returns \<open>False\<close> and the registry, with every object, its sequence and its
  dictionary, is exactly as before the call.
\<close>

theorem C8_outdated_version:
  "(case s_version result of None \<Rightarrow> True | Some v \<Rightarrow> v \<le> 1) \<Longrightarrow>
     restore_items str_to_time (Json result) c = (Inr False, c)"
  by (auto simp: restore_items_def split: option.splits)

theorem C8_outdated_version_witness:
  "restore_items Inr
     (Json \<lparr>s_version = Some 1, s_last_check_at = Some ''2019-01-01 00:00:00.000001'',
            s_cdn_list = Some [\<lparr>s_host = ''A'', s_request_count = 5, s_success_count = 4,
                                 s_weight = 8800\<rparr>]\<rparr>)
     (load_items [''A'', ''B''] (Cdn_init :: string Cdn))
     = (Inr False, load_items [''A'', ''B''] Cdn_init)
   \<and> restore_items Inr
       (Json \<lparr>s_version = None, s_last_check_at = None,
              s_cdn_list = Some [\<lparr>s_host = ''A'', s_request_count = 5, s_success_count = 4,
                                   s_weight = 8800\<rparr>]\<rparr>)
       (load_items [''A'', ''B''] (Cdn_init :: string Cdn))
       = (Inr False, load_items [''A'', ''B''] Cdn_init)"
  using C8_outdated_version [of "\<lparr>s_version = Some 1,
            s_last_check_at = Some ''2019-01-01 00:00:00.000001'',
            s_cdn_list = Some [\<lparr>s_host = ''A'', s_request_count = 5, s_success_count = 4,
                                 s_weight = 8800\<rparr>]\<rparr>" Inr
          "load_items [''A'', ''B''] (Cdn_init :: string Cdn)"]
        C8_outdated_version [of "\<lparr>s_version = None, s_last_check_at = None,
            s_cdn_list = Some [\<lparr>s_host = ''A'', s_request_count = 5, s_success_count = 4,
                                 s_weight = 8800\<rparr>]\<rparr>" Inr
          "load_items [''A'', ''B''] (Cdn_init :: string Cdn)"]
  by simp

subsection \<open>Sorting, positions and the restore loop\<close>


lemma set_sort_reverse: "set (sort_reverse key xs) = set xs"
  by (simp add: sort_reverse_def)

lemma length_sort_reverse: "length (sort_reverse key xs) = length xs"
  by (simp add: sort_reverse_def)



















lemma restore_cdn_list_other_fields:
  "host (objs (snd (restore_cdn_list xs c)) a) = host (objs c a)
   \<and> list_index (objs (snd (restore_cdn_list xs c)) a) = list_index (objs c a)
   \<and> delay_data (objs (snd (restore_cdn_list xs c)) a) = delay_data (objs c a)
   \<and> delay_count (objs (snd (restore_cdn_list xs c)) a) = delay_count (objs c a)
   \<and> delay_rate_score (objs (snd (restore_cdn_list xs c)) a) = delay_rate_score (objs c a)"
  by (induction xs c rule: restore_cdn_list.induct) (auto split: option.splits)




text \<open>
  A host file whose lines name pairwise different hosts gives a registry in which
  every object of the sequence is the one the dictionary holds for its host.
\<close>

lemma load_line_frame:
  "cdn_list (load_line val c) = cdn_list c @ [next_addr c]"
  "next_addr (load_line val c) = Suc (next_addr c)"
  "cdn_map (load_line val c) = (cdn_map c)(rstrip_newline val \<mapsto> next_addr c)"
  "objs (load_line val c) = (objs c)(next_addr c :=
       (CdnItem_init (rstrip_newline val))\<lparr>list_index := Some (length (cdn_list c))\<rparr>)"
  by (simp_all add: load_line_def Let_def)

lemma load_items_indexed_aux:
  "distinct (map rstrip_newline lines) \<Longrightarrow>
   set (map rstrip_newline lines) \<inter> host ` objs c ` set (cdn_list c) = {} \<Longrightarrow>
   \<forall>a \<in> set (cdn_list c). a < next_addr c \<Longrightarrow>
   indexed_under_host c \<Longrightarrow>
     indexed_under_host (fold load_line lines c)"
proof (induction lines arbitrary: c)
  case Nil
  then show ?case by simp
next
  case (Cons val lines)
  let ?c = "load_line val c"
  let ?h = "rstrip_newline val"
  have fresh: "next_addr c \<notin> set (cdn_list c)" using Cons.prems(3) by auto
  have hnew: "?h \<notin> host ` objs c ` set (cdn_list c)" using Cons.prems(2) by auto
  have 1: "distinct (map rstrip_newline lines)" using Cons.prems(1) by simp
  have hosts: "host ` objs ?c ` set (cdn_list ?c) = insert ?h (host ` objs c ` set (cdn_list c))"
    using fresh by (auto simp: load_line_frame CdnItem_init_def)
  have 2: "set (map rstrip_newline lines) \<inter> host ` objs ?c ` set (cdn_list ?c) = {}"
    unfolding hosts using Cons.prems(1,2) by auto
  have 3: "\<forall>a \<in> set (cdn_list ?c). a < next_addr ?c"
    using Cons.prems(3) by (auto simp: load_line_frame)
  have 4: "indexed_under_host ?c"
    unfolding indexed_under_host_def
  proof
    fix a assume a: "a \<in> set (cdn_list ?c)"
    show "cdn_map ?c (host (objs ?c a)) = Some a"
    proof (cases "a = next_addr c")
      case True
      then show ?thesis by (simp add: load_line_frame CdnItem_init_def)
    next
      case False
      with a have ain: "a \<in> set (cdn_list c)" by (simp add: load_line_frame)
      then have "host (objs c a) \<in> host ` objs c ` set (cdn_list c)" by (intro imageI)
      with hnew have "host (objs c a) \<noteq> ?h" by metis
      moreover have "cdn_map c (host (objs c a)) = Some a"
        using Cons.prems(4) ain by (simp add: indexed_under_host_def)
      ultimately show ?thesis using False by (simp add: load_line_frame)
    qed
  qed
  from Cons.IH [OF 1 2 3 4] show ?case by simp
qed

lemma load_items_indexed:
  "distinct (map rstrip_newline lines) \<Longrightarrow> indexed_under_host (load_items lines Cdn_init)"
  unfolding load_items_def
  by (rule load_items_indexed_aux) (simp_all add: Cdn_init_def indexed_under_host_def)







end
